theory Spec2Isabelle
  imports Complex_Main
begin

section \<open>Python values shared by the modules\<close>

text \<open>
  Python floats are modelled as exact reals: every score, confidence, weight and
  threshold of the source is a decimal literal or a sum, product or quotient of such
  literals, and the theorems below are about their exact values. Rounding of the IEEE
  double arithmetic is outside this model.

  An exception is a value of type \<open>exn\<close>; the string it carries is what \<open>str(e)\<close>
  gives, since the handlers of the source only ever format \<open>str(e)\<close> into a tag.
\<close>

datatype exn =
    UnboundLocalError string
  | KeyError string
  | TypeError string
  | NameError string
  | RequestException string

fun str_exn :: "exn \<Rightarrow> string" where
  "str_exn (UnboundLocalError m) = m"
| "str_exn (KeyError m) = m"
| "str_exn (TypeError m) = m"
| "str_exn (NameError m) = m"
| "str_exn (RequestException m) = m"

text \<open>\<open>str(n)\<close> for an integer: decimal digits, with a minus sign when negative.\<close>

definition digit_char :: "nat \<Rightarrow> char" where
  "digit_char d = char_of (48 + d)"

fun str_nat :: "nat \<Rightarrow> string" where
  "str_nat n = (if n < 10 then [digit_char n] else str_nat (n div 10) @ [digit_char (n mod 10)])"

definition str_int :: "int \<Rightarrow> string" where
  "str_int i = (if i < 0 then CHR ''-'' # str_nat (nat (- i)) else str_nat (nat i))"

text \<open>\<open>s.lower()\<close> on the ASCII letters, which is all an address holds.\<close>

definition lower_char :: "char \<Rightarrow> char" where
  "lower_char c =
     (let n = (of_char c :: nat) in if 65 \<le> n \<and> n \<le> 90 then char_of (n + 32) else c)"

definition lower :: "string \<Rightarrow> string" where
  "lower s = map lower_char s"

section \<open>config.py\<close>

record risk_weights_cfg =
  financial_impact :: real
  behavioral_anomaly :: real
  reputation_risk :: real
  historical_context :: real
  approval_risk :: real

record config =
  CACHE_TTL :: int
  MIN_CONFIDENCE :: real
  HIGH_RISK_THRESHOLD :: real
  CRITICAL_RISK_THRESHOLD :: real
  CRITICAL_FINANCIAL_THRESHOLD :: real
  HIGH_FINANCIAL_THRESHOLD :: real
  MEDIUM_FINANCIAL_THRESHOLD :: real
  LOW_FINANCIAL_THRESHOLD :: real
  RISK_WEIGHTS :: risk_weights_cfg

text \<open>The values \<open>Config\<close> takes when no environment variable overrides them.\<close>

definition default_config :: config where
  "default_config =
     \<lparr> CACHE_TTL = 300,
       MIN_CONFIDENCE = 0.6,
       HIGH_RISK_THRESHOLD = 0.7,
       CRITICAL_RISK_THRESHOLD = 0.9,
       CRITICAL_FINANCIAL_THRESHOLD = 1000000,
       HIGH_FINANCIAL_THRESHOLD = 100000,
       MEDIUM_FINANCIAL_THRESHOLD = 10000,
       LOW_FINANCIAL_THRESHOLD = 1000,
       RISK_WEIGHTS = \<lparr> financial_impact = 0.35, behavioral_anomaly = 0.25,
                        reputation_risk = 0.20, historical_context = 0.15,
                        approval_risk = 0.05 \<rparr> \<rparr>"

section \<open>models.py\<close>

datatype EventType = TRANSFER | APPROVAL | SWAP | FLASHLOAN | PERMIT | UNKNOWN

text \<open>
  \<open>parsed_data\<close> is a \<open>Dict[str, Any]\<close>; the engine reads three of its keys. A field is
  \<open>None\<close> when the key is absent; amounts are integers and addresses are strings, as the
  normalisation stage produces them.
\<close>

record parsed_data_t =
  amount :: "int option"
  from_address :: "string option"
  approval_amount :: "int option"

text \<open>
  \<open>transaction_hash\<close> is declared \<open>str\<close>; the annotation is not enforced on a call of
  the engine, and \<open>None\<close> here stands for an attribute that holds Python's \<open>None\<close>.
\<close>

record ProcessedEvent =
  transaction_hash :: "string option"
  contract_address :: string
  event_type :: EventType
  parsed_data :: parsed_data_t

section \<open>enhanced\_risk\_engine.py\<close>

datatype RiskCategory =
    FINANCIAL_IMPACT
  | BEHAVIORAL_ANOMALY
  | REPUTATION_RISK
  | HISTORICAL_CONTEXT
  | APPROVAL_RISK

text \<open>The dictionary every analyzer returns; keys the engine never reads are left out.\<close>

record factor_result =
  score :: real
  confidence :: real
  factors :: "string list"

text \<open>The \<open>except Exception\<close> block that closes each of the five analyzers.\<close>

definition analysis_error :: "exn \<Rightarrow> factor_result" where
  "analysis_error e =
     \<lparr> score = 0.3, confidence = 0.3, factors = [''Analysis error: '' @ str_exn e] \<rparr>"

definition catch_analysis :: "exn + factor_result \<Rightarrow> factor_result" where
  "catch_analysis r = (case r of Inl e \<Rightarrow> analysis_error e | Inr v \<Rightarrow> v)"

subsection \<open>External services and the two caches\<close>

text \<open>
  A call of \<open>requests.get\<close> either raises, or returns a status code and a body; reading
  the fields the source wants out of the body may raise as well (\<open>Inl\<close>).
\<close>

datatype 'a response = RequestRaises exn | Response nat "exn + 'a"

record tx =
  tx_value :: int
  tx_to :: string
  tx_timeStamp :: "int option"

text \<open>
  A GoPlus indicator: an integer flag, or a value on which \<open>int(value)\<close> raises.
\<close>

datatype indicator = Flag int | Unparsable exn

text \<open>
  Everything outside the process that one assessment reads: the clock
  (\<open>datetime.now().timestamp()\<close>, read once per assessment in this model) and the answers
  of CoinGecko, Etherscan and GoPlus. The body of the token lookup is \<open>None\<close> when the
  lower-cased address is not a key of the returned object; the body of the transaction
  list is the pair of its \<open>status\<close> and \<open>result\<close> fields.
\<close>

record world =
  now :: real
  coingecko_ethereum :: "real response"
  coingecko_token :: "string \<Rightarrow> real option response"
  etherscan_txlist :: "string \<Rightarrow> (string \<times> tx list) response"
  goplus_address_security :: "string \<Rightarrow> (string \<rightharpoonup> indicator) response"

record historical =
  transaction_count :: nat
  average_value :: real
  unique_contracts :: nat
  transactions :: "tx list"
  first_seen :: "int option"
  last_seen :: "int option"
  frequency_per_day :: real
  total_value :: int

text \<open>
  \<open>_price_cache\<close> holds two kinds of entry in one dictionary, and so does
  \<open>_reputation_cache\<close> (three kinds); the second component is the \<open>timestamp\<close> field.
\<close>

datatype price_entry = UsdValueEntry real real | PriceEntry real real

datatype rep_entry =
    RiskDataEntry factor_result real
  | HistoricalEntry historical real
  | ReputationEntry factor_result real

record engine_state =
  price_cache :: "string \<rightharpoonup> price_entry"
  reputation_cache :: "string \<rightharpoonup> rep_entry"

definition initial_state :: engine_state where
  "initial_state = \<lparr> price_cache = Map.empty, reputation_cache = Map.empty \<rparr>"

fun price_timestamp :: "price_entry \<Rightarrow> real" where
  "price_timestamp (UsdValueEntry v t) = t"
| "price_timestamp (PriceEntry v t) = t"

fun rep_timestamp :: "rep_entry \<Rightarrow> real" where
  "rep_timestamp (RiskDataEntry v t) = t"
| "rep_timestamp (HistoricalEntry v t) = t"
| "rep_timestamp (ReputationEntry v t) = t"

definition quoted :: "string \<Rightarrow> string" where
  "quoted k = CHR 0x27 # k @ [CHR 0x27]"

text \<open>\<open>cached_data['price']\<close> and \<open>cached_data['usd_value']\<close>.\<close>

fun entry_price :: "price_entry \<Rightarrow> exn + real" where
  "entry_price (PriceEntry p t) = Inr p"
| "entry_price (UsdValueEntry v t) = Inl (KeyError (quoted ''price''))"

fun entry_usd_value :: "price_entry \<Rightarrow> exn + real" where
  "entry_usd_value (UsdValueEntry v t) = Inr v"
| "entry_usd_value (PriceEntry p t) = Inl (KeyError (quoted ''usd_value''))"

subsection \<open>Token price and USD value\<close>

definition WETH :: string where
  "WETH = ''0xc02aaa39b223fe8d0a0e5c4f27ead9083c756cc2''"

definition cache_price :: "world \<Rightarrow> engine_state \<Rightarrow> string \<Rightarrow> real \<Rightarrow> engine_state" where
  "cache_price w st token_address price =
     st\<lparr> price_cache := (price_cache st)(token_address \<mapsto> PriceEntry price (now w)) \<rparr>"

text \<open>The generic lookup and the final \<open>return 1.0\<close>.\<close>

definition generic_token_price ::
  "world \<Rightarrow> engine_state \<Rightarrow> string \<Rightarrow> exn + real \<times> engine_state" where
  "generic_token_price w st token_address =
     (case coingecko_token w token_address of
        RequestRaises e \<Rightarrow> Inl e
      | Response code body \<Rightarrow>
          if code = 200 then
            (case body of
               Inl e \<Rightarrow> Inl e
             | Inr None \<Rightarrow> Inr (1.0, st)
             | Inr (Some price) \<Rightarrow> Inr (price, cache_price w st token_address price))
          else Inr (1.0, st))"

definition fetch_token_price ::
  "world \<Rightarrow> engine_state \<Rightarrow> string \<Rightarrow> exn + real \<times> engine_state" where
  "fetch_token_price w st token_address =
     (if lower token_address = WETH then
        (case coingecko_ethereum w of
           RequestRaises e \<Rightarrow> Inl e
         | Response code body \<Rightarrow>
             if code = 200 then
               (case body of
                  Inl e \<Rightarrow> Inl e
                | Inr price \<Rightarrow> Inr (price, cache_price w st token_address price))
             else generic_token_price w st token_address)
      else generic_token_price w st token_address)"

definition get_token_price_body ::
  "config \<Rightarrow> world \<Rightarrow> engine_state \<Rightarrow> string \<Rightarrow> exn + real \<times> engine_state" where
  "get_token_price_body cfg w st token_address =
     (case price_cache st token_address of
        Some cached_data \<Rightarrow>
          if now w - price_timestamp cached_data < real_of_int (CACHE_TTL cfg)
          then (case entry_price cached_data of Inl e \<Rightarrow> Inl e | Inr p \<Rightarrow> Inr (p, st))
          else fetch_token_price w st token_address
      | None \<Rightarrow> fetch_token_price w st token_address)"

definition get_token_price ::
  "config \<Rightarrow> world \<Rightarrow> engine_state \<Rightarrow> string \<Rightarrow> real \<times> engine_state" where
  "get_token_price cfg w st token_address =
     (case get_token_price_body cfg w st token_address of
        Inl e \<Rightarrow> (1.0, st)
      | Inr r \<Rightarrow> r)"

definition usd_cache_key :: "string \<Rightarrow> int \<Rightarrow> string" where
  "usd_cache_key token_address amt = token_address @ ''_'' @ str_int amt"

definition compute_usd_value ::
  "config \<Rightarrow> world \<Rightarrow> engine_state \<Rightarrow> int \<Rightarrow> string \<Rightarrow> real \<times> engine_state" where
  "compute_usd_value cfg w st amt token_address =
     (let (token_price, st1) = get_token_price cfg w st token_address;
          decimals = 18 :: nat;
          token_amount = real_of_int amt / 10 ^ decimals;
          usd_value = token_amount * token_price
      in (usd_value,
          st1\<lparr> price_cache :=
                 (price_cache st1)(usd_cache_key token_address amt \<mapsto>
                    UsdValueEntry usd_value (now w)) \<rparr>))"

definition calculate_usd_value_body ::
  "config \<Rightarrow> world \<Rightarrow> engine_state \<Rightarrow> int \<Rightarrow> string \<Rightarrow> exn + real \<times> engine_state" where
  "calculate_usd_value_body cfg w st amt token_address =
     (case price_cache st (usd_cache_key token_address amt) of
        Some cached_data \<Rightarrow>
          if now w - price_timestamp cached_data < real_of_int (CACHE_TTL cfg)
          then (case entry_usd_value cached_data of Inl e \<Rightarrow> Inl e | Inr v \<Rightarrow> Inr (v, st))
          else Inr (compute_usd_value cfg w st amt token_address)
      | None \<Rightarrow> Inr (compute_usd_value cfg w st amt token_address))"

definition calculate_usd_value ::
  "config \<Rightarrow> world \<Rightarrow> engine_state \<Rightarrow> int \<Rightarrow> string \<Rightarrow> real \<times> engine_state" where
  "calculate_usd_value cfg w st amt token_address =
     (case calculate_usd_value_body cfg w st amt token_address of
        Inl e \<Rightarrow> (0.0, st)
      | Inr r \<Rightarrow> r)"

subsection \<open>Financial impact\<close>

definition financial_tier :: "config \<Rightarrow> real \<Rightarrow> factor_result" where
  "financial_tier cfg usd_value =
     (if usd_value \<ge> CRITICAL_FINANCIAL_THRESHOLD cfg
      then \<lparr> score = 1.0, confidence = 0.9, factors = [''CRITICAL_FINANCIAL_IMPACT''] \<rparr>
      else if usd_value \<ge> HIGH_FINANCIAL_THRESHOLD cfg
      then \<lparr> score = 0.8, confidence = 0.8, factors = [''HIGH_FINANCIAL_IMPACT''] \<rparr>
      else if usd_value \<ge> MEDIUM_FINANCIAL_THRESHOLD cfg
      then \<lparr> score = 0.6, confidence = 0.7, factors = [''MEDIUM_FINANCIAL_IMPACT''] \<rparr>
      else if usd_value \<ge> LOW_FINANCIAL_THRESHOLD cfg
      then \<lparr> score = 0.4, confidence = 0.6, factors = [''LOW_FINANCIAL_IMPACT''] \<rparr>
      else \<lparr> score = 0.2, confidence = 0.5, factors = [''MINIMAL_FINANCIAL_IMPACT''] \<rparr>)"

definition analyze_financial_impact_body ::
  "config \<Rightarrow> world \<Rightarrow> engine_state \<Rightarrow> ProcessedEvent \<Rightarrow> (exn + factor_result) \<times> engine_state"
  where
  "analyze_financial_impact_body cfg w st event =
     (case amount (parsed_data event) of
        Some amt \<Rightarrow>
          (let (usd_value, st') = calculate_usd_value cfg w st amt (contract_address event)
           in (Inr (financial_tier cfg usd_value), st'))
      | None \<Rightarrow>
          (Inr \<lparr> score = 0.3, confidence = 0.3, factors = [''NO_AMOUNT_DATA''] \<rparr>, st))"

definition analyze_financial_impact ::
  "config \<Rightarrow> world \<Rightarrow> engine_state \<Rightarrow> ProcessedEvent \<Rightarrow> factor_result \<times> engine_state" where
  "analyze_financial_impact cfg w st event =
     (let (r, st') = analyze_financial_impact_body cfg w st event in (catch_analysis r, st'))"

subsection \<open>Historical behaviour of an address\<close>

text \<open>
  The dictionary returned on every path without data has four keys only; the reads of
  the other keys go through \<open>.get\<close> with the defaults written here.
\<close>

definition empty_history :: historical where
  "empty_history =
     \<lparr> transaction_count = 0, average_value = 0, unique_contracts = 0, transactions = [],
       first_seen = None, last_seen = None, frequency_per_day = 0, total_value = 0 \<rparr>"

definition summarize_transactions :: "tx list \<Rightarrow> historical" where
  "summarize_transactions txs =
     (let total_txs = length txs;
          value_sum = sum_list (map tx_value txs);
          avg_value = real_of_int value_sum / real total_txs;
          contracts = length (remdups (filter (\<lambda>t. t \<noteq> []) (map tx_to txs)));
          first = tx_timeStamp (hd txs);
          lst = tx_timeStamp (last txs);
          frequency =
            (case first of
               Some f \<Rightarrow>
                 (case lst of
                    Some l \<Rightarrow> real total_txs / max (real_of_int (l - f) / 86400) 1
                  | None \<Rightarrow> 0)
             | None \<Rightarrow> 0)
      in \<lparr> transaction_count = total_txs, average_value = avg_value,
           unique_contracts = contracts, transactions = txs,
           first_seen = first, last_seen = lst,
           frequency_per_day = frequency, total_value = value_sum \<rparr>)"

definition fetch_historical_behavior ::
  "world \<Rightarrow> engine_state \<Rightarrow> string \<Rightarrow> exn + historical \<times> engine_state" where
  "fetch_historical_behavior w st address =
     (case etherscan_txlist w address of
        RequestRaises e \<Rightarrow> Inl e
      | Response code body \<Rightarrow>
          if code = 200 then
            (case body of
               Inl e \<Rightarrow> Inl e
             | Inr (status, result) \<Rightarrow>
                 if status = ''1'' \<and> result \<noteq> [] then
                   (let txs = drop (length result - 100) result in
                    if length txs = 0 then Inr (empty_history, st)
                    else
                      (let historical_data = summarize_transactions txs
                       in Inr (historical_data,
                               st\<lparr> reputation_cache :=
                                      (reputation_cache st)(''historical_'' @ address \<mapsto>
                                         HistoricalEntry historical_data (now w)) \<rparr>)))
                 else Inr (empty_history, st))
          else Inr (empty_history, st))"

text \<open>
  \<open>cached_data['data']\<close> under a \<open>historical_\<close> key. A reputation dictionary found there
  would be returned as it is, and every later read of it is a \<open>.get\<close> that falls back to
  its default, so it reads as the empty history.
\<close>

fun entry_history :: "rep_entry \<Rightarrow> exn + historical" where
  "entry_history (HistoricalEntry h t) = Inr h"
| "entry_history (ReputationEntry r t) = Inr empty_history"
| "entry_history (RiskDataEntry r t) = Inl (KeyError (quoted ''data''))"

definition get_historical_behavior_body ::
  "config \<Rightarrow> world \<Rightarrow> engine_state \<Rightarrow> string \<Rightarrow> exn + historical \<times> engine_state" where
  "get_historical_behavior_body cfg w st address =
     (case reputation_cache st (''historical_'' @ address) of
        Some cached_data \<Rightarrow>
          if now w - rep_timestamp cached_data < real_of_int (CACHE_TTL cfg)
          then (case entry_history cached_data of Inl e \<Rightarrow> Inl e | Inr h \<Rightarrow> Inr (h, st))
          else fetch_historical_behavior w st address
      | None \<Rightarrow> fetch_historical_behavior w st address)"

definition get_historical_behavior ::
  "config \<Rightarrow> world \<Rightarrow> engine_state \<Rightarrow> string \<Rightarrow> historical \<times> engine_state" where
  "get_historical_behavior cfg w st address =
     (case get_historical_behavior_body cfg w st address of
        Inl e \<Rightarrow> (empty_history, st)
      | Inr r \<Rightarrow> r)"

subsection \<open>Behavioural anomalies\<close>

record behavioral_features =
  feature_value :: int
  feature_contract_address :: string

definition extract_behavioral_features :: "ProcessedEvent \<Rightarrow> behavioral_features" where
  "extract_behavioral_features event =
     \<lparr> feature_value = (case amount (parsed_data event) of Some a \<Rightarrow> a | None \<Rightarrow> 0),
       feature_contract_address = contract_address event \<rparr>"

text \<open>
  \<open>value_ratio\<close> is assigned only under \<open>historical_avg_value > 0\<close>; two later branches
  read it without that guard, and reading it unassigned raises \<open>UnboundLocalError\<close>.
\<close>

definition read_value_ratio :: "real option \<Rightarrow> exn + real" where
  "read_value_ratio value_ratio =
     (case value_ratio of
        Some r \<Rightarrow> Inr r
      | None \<Rightarrow>
          Inl (UnboundLocalError
                 (''cannot access local variable '' @ quoted ''value_ratio''
                  @ '' where it is not associated with a value'')))"

definition value_ratio_of :: "historical \<Rightarrow> behavioral_features \<Rightarrow> real option" where
  "value_ratio_of h current =
     (if average_value h > 0
      then Some (real_of_int (feature_value current) / average_value h)
      else None)"

text \<open>
  The five numbered parts of \<open>_calculate_anomaly_score\<close>, each as the amount it adds to
  \<open>score\<close>. Parts 3 and 5 read \<open>value_ratio\<close>.
\<close>

definition value_anomaly :: "real option \<Rightarrow> real" where
  "value_anomaly value_ratio =
     (case value_ratio of
        Some r \<Rightarrow>
          if r > 1000 then 0.9 else if r > 100 then 0.7
          else if r > 10 then 0.5 else if r > 2 then 0.2 else 0.0
      | None \<Rightarrow> 0.0)"

definition contract_interaction_anomaly :: "historical \<Rightarrow> behavioral_features \<Rightarrow> real" where
  "contract_interaction_anomaly h current =
     (let historical_contracts = map tx_to (transactions h);
          current_contract = feature_contract_address current
      in if current_contract \<noteq> [] \<and> current_contract \<notin> set historical_contracts
         then (if historical_contracts \<noteq> [] then 0.3 else 0.1)
         else 0.0)"

definition frequency_anomaly :: "historical \<Rightarrow> real option \<Rightarrow> exn + real" where
  "frequency_anomaly h value_ratio =
     (let historical_frequency = frequency_per_day h in
      if historical_frequency > 0 \<and> historical_frequency > 10
      then (case read_value_ratio value_ratio of
              Inl e \<Rightarrow> Inl e
            | Inr r \<Rightarrow> Inr (if r > 10 then 0.2 else 0.0))
      else Inr 0.0)"

definition account_age_anomaly :: "world \<Rightarrow> historical \<Rightarrow> behavioral_features \<Rightarrow> real" where
  "account_age_anomaly w h current =
     (let current_value = feature_value current in
      case first_seen h of
        Some fs \<Rightarrow>
          (let account_age_days = (now w - real_of_int fs) / 86400 in
           if account_age_days < 1
           then (if current_value > 1000000000000000000 then 0.4 else 0.0)
           else if account_age_days < 7
           then (if current_value > 10000000000000000000 then 0.3 else 0.0)
           else 0.0)
      | None \<Rightarrow> 0.0)"

definition transaction_count_anomaly ::
  "historical \<Rightarrow> behavioral_features \<Rightarrow> real option \<Rightarrow> exn + real" where
  "transaction_count_anomaly h current value_ratio =
     (if transaction_count h = 0
      then Inr (if feature_value current > 1000000000000000000 then 0.5 else 0.0)
      else if transaction_count h < 5
      then (case read_value_ratio value_ratio of
              Inl e \<Rightarrow> Inl e
            | Inr r \<Rightarrow> Inr (if r > 50 then 0.3 else 0.0))
      else Inr 0.0)"

definition calculate_anomaly_score ::
  "world \<Rightarrow> historical \<Rightarrow> behavioral_features \<Rightarrow> exn + real" where
  "calculate_anomaly_score w h current =
     (let value_ratio = value_ratio_of h current;
          a1 = value_anomaly value_ratio;
          a2 = contract_interaction_anomaly h current
      in case frequency_anomaly h value_ratio of
           Inl e \<Rightarrow> Inl e
         | Inr a3 \<Rightarrow>
             (let a4 = account_age_anomaly w h current
              in case transaction_count_anomaly h current value_ratio of
                   Inl e \<Rightarrow> Inl e
                 | Inr a5 \<Rightarrow> Inr (min (0.0 + a1 + a2 + a3 + a4 + a5) 1.0)))"

definition calculate_anomaly_confidence :: "real \<Rightarrow> nat \<Rightarrow> real" where
  "calculate_anomaly_confidence anomaly_score historical_data_points =
     (let base_confidence = anomaly_score * 0.8;
          data_quality_factor =
            (if historical_data_points > 50 then 1.0
             else if historical_data_points > 10 then 0.7
             else if historical_data_points > 0 then 0.4
             else 0.1)
      in min (base_confidence * data_quality_factor) 1.0)"

definition anomaly_factors :: "real \<Rightarrow> string list" where
  "anomaly_factors anomaly_score =
     (if anomaly_score > 0.7 then [''HIGH_ANOMALY_SCORE'']
      else if anomaly_score > 0.4 then [''MEDIUM_ANOMALY_SCORE'']
      else [''LOW_ANOMALY_SCORE''])"

definition address_or_empty :: "ProcessedEvent \<Rightarrow> string" where
  "address_or_empty event =
     (case from_address (parsed_data event) of Some a \<Rightarrow> a | None \<Rightarrow> [])"

definition detect_behavioral_anomalies_body ::
  "config \<Rightarrow> world \<Rightarrow> engine_state \<Rightarrow> ProcessedEvent \<Rightarrow> (exn + factor_result) \<times> engine_state"
  where
  "detect_behavioral_anomalies_body cfg w st event =
     (let addr = address_or_empty event in
      if addr = [] then
        (Inr \<lparr> score = 0.3, confidence = 0.3, factors = [''NO_FROM_ADDRESS''] \<rparr>, st)
      else
        (let (historical_behavior, st') = get_historical_behavior cfg w st addr;
             current_behavior = extract_behavioral_features event
         in case calculate_anomaly_score w historical_behavior current_behavior of
              Inl e \<Rightarrow> (Inl e, st')
            | Inr anomaly_score \<Rightarrow>
                (Inr \<lparr> score = anomaly_score,
                       confidence =
                         calculate_anomaly_confidence anomaly_score
                           (length (transactions historical_behavior)),
                       factors = anomaly_factors anomaly_score \<rparr>, st')))"

definition detect_behavioral_anomalies ::
  "config \<Rightarrow> world \<Rightarrow> engine_state \<Rightarrow> ProcessedEvent \<Rightarrow> factor_result \<times> engine_state" where
  "detect_behavioral_anomalies cfg w st event =
     (let (r, st') = detect_behavioral_anomalies_body cfg w st event in (catch_analysis r, st'))"

subsection \<open>Reputation risk\<close>

text \<open>
  The table \<open>risk_indicators\<close> in its dictionary order. The third component is the
  factor name the source derives from the key
  (\<open>indicator.replace('_', ' ').title().replace('Kyc', 'KYC')\<close>), written out.
\<close>

definition risk_indicators :: "(string \<times> real \<times> string) list" where
  "risk_indicators =
     [(''cybercrime'', 0.9, ''Cybercrime''),
      (''money_laundering'', 0.9, ''Money Laundering''),
      (''financial_crime'', 0.8, ''Financial Crime''),
      (''sanctioned'', 0.9, ''Sanctioned''),
      (''stealing_attack'', 0.8, ''Stealing Attack''),
      (''phishing_activities'', 0.8, ''Phishing Activities''),
      (''blackmail_activities'', 0.7, ''Blackmail Activities''),
      (''darkweb_transactions'', 0.7, ''Darkweb Transactions''),
      (''mixer'', 0.6, ''Mixer''),
      (''honeypot_related_address'', 0.7, ''Honeypot Related Address''),
      (''malicious_mining_activities'', 0.6, ''Malicious Mining Activities''),
      (''blacklist_doubt'', 0.8, ''Blacklist Doubt''),
      (''fake_kyc'', 0.5, ''Fake KYC''),
      (''fake_standard_interface'', 0.5, ''Fake Standard Interface''),
      (''fake_token'', 0.4, ''Fake Token''),
      (''gas_abuse'', 0.4, ''Gas Abuse''),
      (''number_of_malicious_contracts_created'', 0.6,
       ''Number Of Malicious Contracts Created''),
      (''reinit'', 0.3, ''Reinit'')]"

definition critical_indicators :: "(string \<times> string) list" where
  "critical_indicators =
     [(''cybercrime'', ''CRITICAL: Cybercrime''),
      (''money_laundering'', ''CRITICAL: Money Laundering''),
      (''financial_crime'', ''CRITICAL: Financial Crime''),
      (''sanctioned'', ''CRITICAL: Sanctioned'')]"

text \<open>\<open>result.get(indicator, "0")\<close>.\<close>

definition indicator_of :: "(string \<rightharpoonup> indicator) \<Rightarrow> string \<Rightarrow> indicator" where
  "indicator_of result k = (case result k of Some v \<Rightarrow> v | None \<Rightarrow> Flag 0)"

text \<open>The first loop: a value that does not convert is skipped (\<open>continue\<close>).\<close>

fun check_indicators ::
  "(string \<rightharpoonup> indicator) \<Rightarrow> (string \<times> real \<times> string) list \<Rightarrow> real \<times> string list
   \<Rightarrow> real \<times> string list" where
  "check_indicators result [] acc = acc"
| "check_indicators result ((ind, weight, factor_name) # rest) (max_risk_score, triggered) =
     (case indicator_of result ind of
        Flag n \<Rightarrow>
          if n > 0
          then check_indicators result rest
                 (max max_risk_score weight, triggered @ [factor_name])
          else check_indicators result rest (max_risk_score, triggered)
      | Unparsable e \<Rightarrow> check_indicators result rest (max_risk_score, triggered))"

text \<open>The second loop converts without a handler of its own.\<close>

fun check_critical ::
  "(string \<rightharpoonup> indicator) \<Rightarrow> (string \<times> string) list \<Rightarrow> real \<times> string list
   \<Rightarrow> exn + real \<times> string list" where
  "check_critical result [] acc = Inr acc"
| "check_critical result ((critical, tag) # rest) (max_risk_score, triggered) =
     (case indicator_of result critical of
        Flag n \<Rightarrow>
          if n > 0
          then check_critical result rest (max max_risk_score 0.95, tag # triggered)
          else check_critical result rest (max_risk_score, triggered)
      | Unparsable e \<Rightarrow> Inl e)"

definition reputation_data_of :: "real \<times> string list \<Rightarrow> factor_result" where
  "reputation_data_of acc =
     (case acc of
        (max_risk_score, triggered) \<Rightarrow>
          \<lparr> score = max_risk_score,
            confidence = (if triggered \<noteq> [] then 0.9 else 0.8),
            factors = (if triggered \<noteq> [] then triggered
                       else [''No reputation issues found'']) \<rparr>)"

definition fetch_address_reputation ::
  "world \<Rightarrow> engine_state \<Rightarrow> string \<Rightarrow> exn + factor_result \<times> engine_state" where
  "fetch_address_reputation w st address =
     (case goplus_address_security w address of
        RequestRaises e \<Rightarrow> Inl e
      | Response code body \<Rightarrow>
          if code = 200 then
            (case body of
               Inl e \<Rightarrow> Inl e
             | Inr result \<Rightarrow>
                 (case check_critical result critical_indicators
                         (check_indicators result risk_indicators (0.0, [])) of
                    Inl e \<Rightarrow> Inl e
                  | Inr acc \<Rightarrow>
                      (let reputation_data = reputation_data_of acc
                       in Inr (reputation_data,
                               st\<lparr> reputation_cache :=
                                      (reputation_cache st)(''reputation_'' @ address \<mapsto>
                                         ReputationEntry reputation_data (now w)) \<rparr>))))
          else
            Inr (\<lparr> score = 0.2, confidence = 0.3,
                    factors = [''API error: '' @ str_nat code] \<rparr>, st))"

text \<open>
  \<open>cached_data['data']\<close> under a \<open>reputation_\<close> key. An entry written by
  \<open>_get_historical_behavior\<close> sits under a key that starts with \<open>historical_\<close>, never
  under this one; the last equation only makes the function total, with the error the
  first read of a score out of a history would raise.
\<close>

fun entry_reputation :: "rep_entry \<Rightarrow> exn + factor_result" where
  "entry_reputation (ReputationEntry r t) = Inr r"
| "entry_reputation (RiskDataEntry r t) = Inl (KeyError (quoted ''data''))"
| "entry_reputation (HistoricalEntry h t) = Inl (KeyError (quoted ''score''))"

definition check_address_reputation_body ::
  "config \<Rightarrow> world \<Rightarrow> engine_state \<Rightarrow> string \<Rightarrow> exn + factor_result \<times> engine_state" where
  "check_address_reputation_body cfg w st address =
     (case reputation_cache st (''reputation_'' @ address) of
        Some cached_data \<Rightarrow>
          if now w - rep_timestamp cached_data < real_of_int (CACHE_TTL cfg)
          then (case entry_reputation cached_data of Inl e \<Rightarrow> Inl e | Inr r \<Rightarrow> Inr (r, st))
          else fetch_address_reputation w st address
      | None \<Rightarrow> fetch_address_reputation w st address)"

definition check_address_reputation ::
  "config \<Rightarrow> world \<Rightarrow> engine_state \<Rightarrow> string \<Rightarrow> factor_result \<times> engine_state" where
  "check_address_reputation cfg w st address =
     (case check_address_reputation_body cfg w st address of
        Inl e \<Rightarrow>
          (\<lparr> score = 0.2, confidence = 0.3,
             factors = [''Reputation check failed: '' @ str_exn e] \<rparr>, st)
      | Inr r \<Rightarrow> r)"

text \<open>\<open>cached_data['risk_data']\<close>.\<close>

fun entry_risk_data :: "rep_entry \<Rightarrow> exn + factor_result" where
  "entry_risk_data (RiskDataEntry r t) = Inr r"
| "entry_risk_data (ReputationEntry r t) = Inl (KeyError (quoted ''risk_data''))"
| "entry_risk_data (HistoricalEntry h t) = Inl (KeyError (quoted ''risk_data''))"

definition lookup_reputation_risk ::
  "config \<Rightarrow> world \<Rightarrow> engine_state \<Rightarrow> string \<Rightarrow> (exn + factor_result) \<times> engine_state" where
  "lookup_reputation_risk cfg w st addr =
     (let (reputation_risk, st') = check_address_reputation cfg w st addr
      in (Inr reputation_risk,
          st'\<lparr> reputation_cache :=
                 (reputation_cache st')(addr \<mapsto> RiskDataEntry reputation_risk (now w)) \<rparr>))"

definition assess_reputation_risk_body ::
  "config \<Rightarrow> world \<Rightarrow> engine_state \<Rightarrow> ProcessedEvent \<Rightarrow> (exn + factor_result) \<times> engine_state"
  where
  "assess_reputation_risk_body cfg w st event =
     (let addr = address_or_empty event in
      if addr = [] then
        (Inr \<lparr> score = 0.3, confidence = 0.3, factors = [''NO_FROM_ADDRESS''] \<rparr>, st)
      else
        (case reputation_cache st addr of
           Some cached_data \<Rightarrow>
             if now w - rep_timestamp cached_data < real_of_int (CACHE_TTL cfg)
             then (entry_risk_data cached_data, st)
             else lookup_reputation_risk cfg w st addr
         | None \<Rightarrow> lookup_reputation_risk cfg w st addr))"

definition assess_reputation_risk ::
  "config \<Rightarrow> world \<Rightarrow> engine_state \<Rightarrow> ProcessedEvent \<Rightarrow> factor_result \<times> engine_state" where
  "assess_reputation_risk cfg w st event =
     (let (r, st') = assess_reputation_risk_body cfg w st event in (catch_analysis r, st'))"

subsection \<open>Historical context\<close>

definition account_age_step :: "world \<Rightarrow> historical \<Rightarrow> real \<times> string list" where
  "account_age_step w h =
     (case first_seen h of
        Some fs \<Rightarrow>
          (let account_age_days = (now w - real_of_int fs) / 86400 in
           if account_age_days < 1 then (0.3, [''NEW_ACCOUNT''])
           else if account_age_days < 7 then (0.2, [''VERY_NEW_ACCOUNT''])
           else if account_age_days < 30 then (0.1, [''RECENT_ACCOUNT''])
           else (0.0, []))
      | None \<Rightarrow> (0.0, []))"

definition transaction_history_step :: "historical \<Rightarrow> real \<times> string list" where
  "transaction_history_step h =
     (if transaction_count h = 0 then (0.4, [''NO_TRANSACTION_HISTORY''])
      else if transaction_count h < 5 then (0.2, [''MINIMAL_TRANSACTION_HISTORY''])
      else if transaction_count h > 1000 then (0.1, [''HIGH_FREQUENCY_USER''])
      else (0.0, []))"

definition contract_interaction_step :: "historical \<Rightarrow> real \<times> string list" where
  "contract_interaction_step h =
     (if unique_contracts h = 0 then (0.2, [''NO_CONTRACT_INTERACTIONS''])
      else if unique_contracts h > 100 then (0.1, [''MANY_CONTRACT_INTERACTIONS''])
      else (0.0, []))"

definition value_pattern_step :: "historical \<Rightarrow> int \<Rightarrow> real \<times> string list" where
  "value_pattern_step h current_value =
     (if total_value h > 0 then
        (let value_ratio = real_of_int current_value / real_of_int (total_value h) in
         if value_ratio > 0.5 then (0.3, [''LARGE_VALUE_RATIO'']) else (0.0, []))
      else (0.0, []))"

definition frequency_step :: "historical \<Rightarrow> real \<times> string list" where
  "frequency_step h =
     (if frequency_per_day h > 50 then (0.1, [''VERY_HIGH_FREQUENCY''])
      else if frequency_per_day h = 0 \<and> transaction_count h > 0
      then (0.2, [''INACTIVE_ACCOUNT''])
      else (0.0, []))"

definition historical_steps :: "world \<Rightarrow> historical \<Rightarrow> int \<Rightarrow> (real \<times> string list) list" where
  "historical_steps w h current_value =
     [account_age_step w h, transaction_history_step h, contract_interaction_step h,
      value_pattern_step h current_value, frequency_step h]"

definition historical_context_of :: "world \<Rightarrow> historical \<Rightarrow> int \<Rightarrow> factor_result" where
  "historical_context_of w h current_value =
     (let steps = historical_steps w h current_value;
          risk_score = sum_list (map fst steps);
          risk_factors = concat (map snd steps);
          cnt = transaction_count h
      in \<lparr> score = min risk_score 1.0,
           confidence = (if cnt > 10 then 0.8 else if cnt > 0 then 0.6 else 0.4),
           factors = (if risk_factors \<noteq> [] then risk_factors
                      else [''STANDARD_HISTORICAL_CONTEXT'']) \<rparr>)"

definition analyze_historical_context_body ::
  "config \<Rightarrow> world \<Rightarrow> engine_state \<Rightarrow> ProcessedEvent \<Rightarrow> (exn + factor_result) \<times> engine_state"
  where
  "analyze_historical_context_body cfg w st event =
     (let addr = address_or_empty event in
      if addr = [] then
        (Inr \<lparr> score = 0.3, confidence = 0.3, factors = [''NO_FROM_ADDRESS''] \<rparr>, st)
      else
        (let (historical_behavior, st') = get_historical_behavior cfg w st addr;
             current_value = (case amount (parsed_data event) of Some a \<Rightarrow> a | None \<Rightarrow> 0)
         in (Inr (historical_context_of w historical_behavior current_value), st')))"

definition analyze_historical_context ::
  "config \<Rightarrow> world \<Rightarrow> engine_state \<Rightarrow> ProcessedEvent \<Rightarrow> factor_result \<times> engine_state" where
  "analyze_historical_context cfg w st event =
     (let (r, st') = analyze_historical_context_body cfg w st event in (catch_analysis r, st'))"

subsection \<open>Approval risk\<close>

definition is_unlimited_approval :: "int \<Rightarrow> bool" where
  "is_unlimited_approval a \<longleftrightarrow>
     a \<in> set [2 ^ 256 - 1,
               115792089237316195423570985008687907853269984665640564039457584007913129639935]
     \<or> a > 10 ^ 30"

definition analyze_approval_risk_body :: "ProcessedEvent \<Rightarrow> exn + factor_result" where
  "analyze_approval_risk_body event =
     (case approval_amount (parsed_data event) of
        Some a \<Rightarrow>
          if is_unlimited_approval a
          then Inr \<lparr> score = 0.9, confidence = 0.8, factors = [''UNLIMITED_APPROVAL''] \<rparr>
          else if a > 10 ^ 24
          then Inr \<lparr> score = 0.7, confidence = 0.8, factors = [''LARGE_APPROVAL''] \<rparr>
          else Inr \<lparr> score = 0.3, confidence = 0.8, factors = [''NORMAL_APPROVAL''] \<rparr>
      | None \<Rightarrow> Inr \<lparr> score = 0.0, confidence = 0.8, factors = [] \<rparr>)"

definition analyze_approval_risk :: "ProcessedEvent \<Rightarrow> factor_result" where
  "analyze_approval_risk event = catch_analysis (analyze_approval_risk_body event)"

subsection \<open>Recommendation\<close>

definition generate_recommendation :: "config \<Rightarrow> real \<Rightarrow> real \<Rightarrow> string" where
  "generate_recommendation cfg risk_score conf =
     (if conf < MIN_CONFIDENCE cfg then ''MONITOR''
      else if risk_score \<ge> CRITICAL_RISK_THRESHOLD cfg then ''CRITICAL_INVESTIGATION''
      else if risk_score \<ge> HIGH_RISK_THRESHOLD cfg then ''IMMEDIATE_INVESTIGATION''
      else if risk_score \<ge> 0.5 then ''INVESTIGATE''
      else ''MONITOR'')"

subsection \<open>The combined assessment\<close>

text \<open>\<open>self.risk_weights\<close>, built in the constructor from \<open>Config.RISK_WEIGHTS\<close>.\<close>

fun risk_weights :: "config \<Rightarrow> RiskCategory \<Rightarrow> real" where
  "risk_weights cfg FINANCIAL_IMPACT = financial_impact (RISK_WEIGHTS cfg)"
| "risk_weights cfg BEHAVIORAL_ANOMALY = behavioral_anomaly (RISK_WEIGHTS cfg)"
| "risk_weights cfg REPUTATION_RISK = reputation_risk (RISK_WEIGHTS cfg)"
| "risk_weights cfg HISTORICAL_CONTEXT = historical_context (RISK_WEIGHTS cfg)"
| "risk_weights cfg APPROVAL_RISK = approval_risk (RISK_WEIGHTS cfg)"

text \<open>
  \<open>risk_components\<close> is a dictionary; its items come in insertion order, which is the
  order of this list.
\<close>

type_synonym components = "(RiskCategory \<times> factor_result) list"

fun accumulate_weighted :: "config \<Rightarrow> components \<Rightarrow> real \<times> real \<Rightarrow> real \<times> real" where
  "accumulate_weighted cfg [] acc = acc"
| "accumulate_weighted cfg ((category, component) # rest) (total_score, total_weight) =
     (let weight = risk_weights cfg category
      in accumulate_weighted cfg rest
           (total_score + score component * weight, total_weight + weight))"

definition calculate_weighted_risk_score :: "config \<Rightarrow> components \<Rightarrow> real" where
  "calculate_weighted_risk_score cfg risk_components =
     (case accumulate_weighted cfg risk_components (0.0, 0.0) of
        (total_score, total_weight) \<Rightarrow> total_score / max total_weight 0.001)"

text \<open>
  Python's \<open>max(iterable, key=...)\<close> on a non-empty iterable: the running maximum is
  replaced only by an item whose key is strictly greater, so the first of several
  maximal items is returned.
\<close>

fun max_by_key :: "('a \<Rightarrow> real) \<Rightarrow> 'a \<Rightarrow> 'a list \<Rightarrow> 'a" where
  "max_by_key key best [] = best"
| "max_by_key key best (x # xs) = max_by_key key (if key x > key best then x else best) xs"

datatype details_t =
    Details components "real list"
  | ErrorDetails string

text \<open>
  \<open>factors\<close> is \<open>list(set(all_factors))\<close>: the order of the list is that of a Python set,
  which the language does not fix, so the field is modelled by the set itself.
\<close>

record RiskAssessment =
  overall_score :: real
  assessment_confidence :: real
  risk_category :: RiskCategory
  assessment_factors :: "string set"
  recommendation :: string
  details :: details_t

definition component_score :: "RiskCategory \<times> factor_result \<Rightarrow> real" where
  "component_score x = score (snd x)"

definition combine_components ::
  "config \<Rightarrow> RiskCategory \<times> factor_result \<Rightarrow> components \<Rightarrow> RiskAssessment" where
  "combine_components cfg first_component later_components =
     (let risk_components = first_component # later_components;
          confidence_factors = map (\<lambda>x. confidence (snd x)) risk_components;
          all_factors = concat (map (\<lambda>x. factors (snd x)) risk_components);
          overall = calculate_weighted_risk_score cfg risk_components;
          overall_confidence = sum_list confidence_factors / real (length confidence_factors);
          primary_category =
            fst (max_by_key component_score first_component later_components)
      in \<lparr> overall_score = overall,
           assessment_confidence = overall_confidence,
           risk_category = primary_category,
           assessment_factors = set all_factors,
           recommendation = generate_recommendation cfg overall overall_confidence,
           details = Details risk_components confidence_factors \<rparr>)"

text \<open>
  The \<open>try\<close> block. Its first statement slices \<open>processed_event.transaction_hash\<close> for
  the log line, which raises when the attribute is not a string.
\<close>

definition assess_comprehensive_risk_body ::
  "config \<Rightarrow> world \<Rightarrow> engine_state \<Rightarrow> ProcessedEvent \<Rightarrow> (exn + RiskAssessment) \<times> engine_state"
  where
  "assess_comprehensive_risk_body cfg w st processed_event =
     (case transaction_hash processed_event of
        None \<Rightarrow> (Inl (TypeError (quoted ''NoneType'' @ '' object is not subscriptable'')), st)
      | Some h \<Rightarrow>
          (let (financial_risk, st1) = analyze_financial_impact cfg w st processed_event;
               (anomaly_risk, st2) = detect_behavioral_anomalies cfg w st1 processed_event;
               (reputation, st3) = assess_reputation_risk cfg w st2 processed_event;
               (historical_risk, st4) = analyze_historical_context cfg w st3 processed_event;
               approval =
                 (if event_type processed_event = APPROVAL
                  then [(APPROVAL_RISK, analyze_approval_risk processed_event)]
                  else [])
           in (Inr (combine_components cfg
                      (FINANCIAL_IMPACT, financial_risk)
                      ([(BEHAVIORAL_ANOMALY, anomaly_risk),
                        (REPUTATION_RISK, reputation),
                        (HISTORICAL_CONTEXT, historical_risk)] @ approval)), st4)))"

text \<open>The \<open>except Exception\<close> block of \<open>assess_comprehensive_risk\<close>.\<close>

definition assessment_error :: "exn \<Rightarrow> RiskAssessment" where
  "assessment_error e =
     \<lparr> overall_score = 0.5,
       assessment_confidence = 0.1,
       risk_category = FINANCIAL_IMPACT,
       assessment_factors = {''Assessment error: '' @ str_exn e},
       recommendation = ''INVESTIGATE'',
       details = ErrorDetails (str_exn e) \<rparr>"

definition assess_comprehensive_risk ::
  "config \<Rightarrow> world \<Rightarrow> engine_state \<Rightarrow> ProcessedEvent \<Rightarrow> RiskAssessment \<times> engine_state" where
  "assess_comprehensive_risk cfg w st processed_event =
     (case assess_comprehensive_risk_body cfg w st processed_event of
        (Inl e, st') \<Rightarrow> (assessment_error e, st')
      | (Inr assessment, st') \<Rightarrow> (assessment, st'))"

section \<open>phase2\_orchestrator.py\<close>

text \<open>
  \<open>agent_state\<close> is a dictionary of counters and of three nested dictionaries with a
  fixed set of keys each; no statement adds or removes a key, so every key is a field.
  A sub-agent address is \<open>None\<close> until discovery finds the agent.
\<close>

record agent_state_t =
  events_processed :: nat
  high_risk_events :: nat
  critical_events :: nat
  sub_agents_event_analyzer :: "string option"
  sub_agents_risk_assessor :: "string option"
  delegation_stats_event_analyzer_calls :: nat
  delegation_stats_risk_assessor_calls :: nat
  delegation_stats_successful_delegations :: nat
  delegation_stats_failed_delegations :: nat
  agent_health_event_analyzer :: string
  agent_health_risk_assessor :: string
  communication_stats_requests_received :: nat
  communication_stats_responses_sent :: nat
  communication_stats_errors_handled :: nat
  communication_stats_timeouts :: nat

datatype CandidateEvent =
  CandidateEvent string string string string string EventType string

record EventAnalysisRequest =
  events :: "CandidateEvent list"
  analysis_type :: string
  priority :: string

record EventAnalysisResult =
  processed_events :: "ProcessedEvent list"
  patterns_detected :: "(string \<times> string) list list"
  analysis_request_id :: string
  processing_time :: real
  analysis_confidence_score :: real

text \<open>An item of \<open>risk_assessments\<close> and of \<open>critical_events\<close>, with the keys read here.\<close>

record assessment_item =
  item_transaction_hash :: string
  item_risk_score :: real
  item_recommendation :: string

record RiskAssessmentResult =
  risk_assessments :: "assessment_item list"
  overall_risk_score :: real
  result_critical_events :: "assessment_item list"
  recommendations :: "string list"
  assessment_request_id :: string
  assessment_time :: real
  assessment_confidence_score :: real

record EventAcknowledgment =
  ack_request_id :: string
  events_received :: nat
  ack_status :: string
  message :: string
  processing_started :: bool

record EventAnalysisResponse =
  response_status :: string
  acknowledgment :: EventAcknowledgment
  summary :: "(string \<times> string) list"

text \<open>
  What \<open>await ctx.send_and_receive(...)\<close> does: it raises, or returns the pair of a
  response and a status. The response is \<open>None\<close> here when it is not an instance of the
  requested \<open>response_type\<close>.
\<close>

datatype 'r reply = SendRaises exn | Reply "'r option" string

definition create_error_response :: "string \<Rightarrow> string \<Rightarrow> EventAnalysisResponse" where
  "create_error_response request_id error_message =
     \<lparr> response_status = ''error'',
       acknowledgment =
         \<lparr> ack_request_id = request_id, events_received = 0, ack_status = ''error'',
           message = error_message, processing_started = False \<rparr>,
       summary = [(''error'', error_message)] \<rparr>"

definition truthy :: "string option \<Rightarrow> bool" where
  "truthy a = (case a of None \<Rightarrow> False | Some s \<Rightarrow> s \<noteq> [])"

definition count_error :: "agent_state_t \<Rightarrow> agent_state_t" where
  "count_error st =
     st\<lparr> communication_stats_errors_handled := communication_stats_errors_handled st + 1 \<rparr>"

definition count_timeout :: "agent_state_t \<Rightarrow> agent_state_t" where
  "count_timeout st =
     st\<lparr> communication_stats_timeouts := communication_stats_timeouts st + 1 \<rparr>"

definition delegate_to_event_analyzer ::
  "agent_state_t \<Rightarrow> EventAnalysisRequest \<Rightarrow> string \<Rightarrow> EventAnalysisResult reply
   \<Rightarrow> EventAnalysisResult option \<times> agent_state_t" where
  "delegate_to_event_analyzer st request request_id answer =
     (if agent_health_event_analyzer st \<noteq> ''healthy'' then (None, st)
      else if \<not> truthy (sub_agents_event_analyzer st) then (None, st)
      else
        (case answer of
           SendRaises e \<Rightarrow> (None, count_error st)
         | Reply response status \<Rightarrow>
             (case response of
                Some r \<Rightarrow>
                  if status = ''success''
                  then (Some r,
                        st\<lparr> delegation_stats_event_analyzer_calls :=
                               delegation_stats_event_analyzer_calls st + 1 \<rparr>)
                  else (None, count_timeout st)
              | None \<Rightarrow> (None, count_timeout st))))"

text \<open>
  The module imports nine names from \<open>communication_models\<close>, and
  \<open>RiskAssessmentRequest\<close> is not one of them; no other statement of the module binds it.
  Evaluating the name in \<open>delegate_to_risk_assessor\<close> therefore raises \<open>NameError\<close>,
  inside the \<open>try\<close> block of that function.
\<close>

definition RiskAssessmentRequest_lookup :: "exn + unit" where
  "RiskAssessmentRequest_lookup =
     Inl (NameError (''name '' @ quoted ''RiskAssessmentRequest'' @ '' is not defined''))"

definition delegate_to_risk_assessor ::
  "agent_state_t \<Rightarrow> EventAnalysisResult \<Rightarrow> string \<Rightarrow> RiskAssessmentResult reply
   \<Rightarrow> RiskAssessmentResult option \<times> agent_state_t" where
  "delegate_to_risk_assessor st event_analysis_result request_id answer =
     (if agent_health_risk_assessor st \<noteq> ''healthy'' then (None, st)
      else
        (case RiskAssessmentRequest_lookup of
           Inl e \<Rightarrow> (None, count_error st)
         | Inr u \<Rightarrow>
             if \<not> truthy (sub_agents_risk_assessor st) then (None, st)
             else
               (case answer of
                  SendRaises e \<Rightarrow> (None, count_error st)
                | Reply response status \<Rightarrow>
                    (case response of
                       Some r \<Rightarrow>
                         if status = ''success''
                         then (Some r,
                               st\<lparr> delegation_stats_risk_assessor_calls :=
                                      delegation_stats_risk_assessor_calls st + 1 \<rparr>)
                         else (None, count_timeout st)
                     | None \<Rightarrow> (None, count_timeout st)))))"

record synthesis =
  high_risk_count :: nat
  critical_count :: nat
  synthesis_recommendations :: "string list"
  synthesis_patterns_detected :: nat
  overall_confidence :: real

definition synthesize_results :: "EventAnalysisResult \<Rightarrow> RiskAssessmentResult \<Rightarrow> synthesis" where
  "synthesize_results event_analysis_result risk_assessment_result =
     \<lparr> high_risk_count =
         length (filter (\<lambda>ra. item_risk_score ra \<ge> 0.7)
                   (risk_assessments risk_assessment_result)),
       critical_count = length (result_critical_events risk_assessment_result),
       synthesis_recommendations = recommendations risk_assessment_result,
       synthesis_patterns_detected = length (patterns_detected event_analysis_result),
       overall_confidence =
         (analysis_confidence_score event_analysis_result
          + assessment_confidence_score risk_assessment_result) / 2 \<rparr>"

text \<open>
  The endpoint. \<open>stamp\<close> is \<open>datetime.now().strftime('%Y%m%d_%H%M%S')\<close>. After the
  synthesis the source increments \<open>communication_stats["successful_delegations"]\<close>, a
  key that dictionary does not have; the \<open>KeyError\<close> is caught by the \<open>except\<close> block
  of the endpoint, whose first statement increments
  \<open>communication_stats["failed_delegations"]\<close>, which is missing as well, so that second
  \<open>KeyError\<close> leaves the endpoint.
\<close>

definition count_request :: "agent_state_t \<Rightarrow> agent_state_t" where
  "count_request st =
     st\<lparr> communication_stats_requests_received :=
          communication_stats_requests_received st + 1 \<rparr>"

definition request_id_of :: "string \<Rightarrow> EventAnalysisRequest \<Rightarrow> string" where
  "request_id_of stamp request = ''req_'' @ stamp @ ''_'' @ str_nat (length (events request))"

definition analyze_events_endpoint ::
  "agent_state_t \<Rightarrow> EventAnalysisRequest \<Rightarrow> string \<Rightarrow> EventAnalysisResult reply
   \<Rightarrow> RiskAssessmentResult reply \<Rightarrow> (exn + EventAnalysisResponse) \<times> agent_state_t" where
  "analyze_events_endpoint st request stamp analyzer_answer assessor_answer =
     (let st0 = count_request st;
          request_id = request_id_of stamp request
      in case delegate_to_event_analyzer st0 request request_id analyzer_answer of
           (None, st1) \<Rightarrow> (Inr (create_error_response request_id ''Event analysis failed''), st1)
         | (Some event_analysis_result, st1) \<Rightarrow>
             (case delegate_to_risk_assessor st1 event_analysis_result request_id
                     assessor_answer of
                (None, st2) \<Rightarrow>
                  (Inr (create_error_response request_id ''Risk assessment failed''), st2)
              | (Some risk_assessment_result, st2) \<Rightarrow>
                  (let synthesis_result =
                         synthesize_results event_analysis_result risk_assessment_result;
                       st3 = st2\<lparr> events_processed :=
                                      events_processed st2 + length (events request),
                                    high_risk_events :=
                                      high_risk_events st2 + high_risk_count synthesis_result,
                                    critical_events :=
                                      critical_events st2 + critical_count synthesis_result \<rparr>
                   in (Inl (KeyError (quoted ''failed_delegations'')), st3))))"

text \<open>
  The three ways the specification lets the delegation of the risk-assessment stage end
  without a result: the worker is not healthy, the call raises (error), or the call
  returns without a successful result of the right type (timeout).
\<close>

definition risk_delegation_fails :: "agent_state_t \<Rightarrow> RiskAssessmentResult reply \<Rightarrow> bool" where
  "risk_delegation_fails st answer \<longleftrightarrow>
     agent_health_risk_assessor st \<noteq> ''healthy''
     \<or> (case answer of
           SendRaises e \<Rightarrow> True
         | Reply response status \<Rightarrow> response = None \<or> status \<noteq> ''success'')"

section \<open>red\_agent/risk\_engine.py\<close>

text \<open>
  The event of the red agent carries its arguments as a dictionary of strings under
  \<open>metadata['args']\<close>; the list is empty when there is no such dictionary. The two
  parameters of the analyzer stand for what lies outside the module: Python's \<open>int\<close> on
  a string (\<open>None\<close> when it raises \<open>ValueError\<close>), and the total value in ether that
  \<open>_analyze_onchain_impact\<close> reads from the chain for a transaction hash (\<open>Inl\<close> when
  the node call raises).
\<close>

record red_event =
  red_event_type :: "string option"
  red_transaction_hash :: "string option"
  args :: "(string \<times> string) list"

record red_result =
  red_score :: real
  red_confidence :: real
  analysis_method :: "string option"

definition ZERO_ADDRESS :: string where
  "ZERO_ADDRESS = ''0x0000000000000000000000000000000000000000''"

definition eth_value_tier :: "real \<Rightarrow> real \<times> real" where
  "eth_value_tier eth_value =
     (if eth_value \<ge> 1000000 then (1.0, 0.95)
      else if eth_value \<ge> 100000 then (0.9, 0.9)
      else if eth_value \<ge> 10000 then (0.8, 0.85)
      else if eth_value \<ge> 1000 then (0.7, 0.8)
      else if eth_value \<ge> 100 then (0.6, 0.75)
      else if eth_value \<ge> 10 then (0.4, 0.7)
      else if eth_value \<ge> 1 then (0.3, 0.6)
      else (0.1, 0.5))"

definition zero_address_step :: "(string \<times> string) list \<Rightarrow> real \<times> real \<Rightarrow> real \<times> real" where
  "zero_address_step a sc =
     (case sc of
        (s, c) \<Rightarrow>
          if map_of a ''to'' = Some ZERO_ADDRESS \<or> map_of a ''from'' = Some ZERO_ADDRESS
          then (min 1.0 (s + 0.2), min 1.0 (c + 0.1))
          else (s, c))"

definition is_approval :: "string option \<Rightarrow> bool" where
  "is_approval t = (case t of None \<Rightarrow> False | Some s \<Rightarrow> s \<noteq> [] \<and> lower s = ''approval'')"

definition high_approval_step :: "string option \<Rightarrow> real \<Rightarrow> real \<times> real \<Rightarrow> real \<times> real" where
  "high_approval_step t eth_value sc =
     (case sc of
        (s, c) \<Rightarrow>
          if is_approval t \<and> eth_value \<ge> 1000
          then (min 1.0 (s + 0.3), min 1.0 (c + 0.15))
          else (s, c))"

definition metadata_impact :: "red_event \<Rightarrow> int \<Rightarrow> red_result" where
  "metadata_impact event v =
     (let eth_value = real_of_int v / 10 ^ 18 in
      case high_approval_step (red_event_type event) eth_value
             (zero_address_step (args event) (eth_value_tier eth_value)) of
        (s, c) \<Rightarrow> \<lparr> red_score = s, red_confidence = c, analysis_method = Some ''metadata'' \<rparr>)"

definition analyze_onchain_impact :: "(string \<Rightarrow> exn + real) \<Rightarrow> string \<Rightarrow> red_result" where
  "analyze_onchain_impact chain tx_hash =
     (case chain tx_hash of
        Inl e \<Rightarrow> \<lparr> red_score = 0.3, red_confidence = 0.3, analysis_method = None \<rparr>
      | Inr eth_total \<Rightarrow>
          (case (if eth_total > 100000 then (1.0, 0.9)
                 else if eth_total > 10000 then (0.8, 0.8)
                 else if eth_total > 1000 then (0.6, 0.7)
                 else if eth_total > 100 then (0.4, 0.6)
                 else (0.2, 0.5)) of
             (s, c) \<Rightarrow>
               \<lparr> red_score = s, red_confidence = c, analysis_method = Some ''onchain'' \<rparr>))"

definition starts_with :: "string \<Rightarrow> string \<Rightarrow> bool" where
  "starts_with s p \<longleftrightarrow> take (length p) s = p"

definition default_impact :: red_result where
  "default_impact =
     \<lparr> red_score = 0.2, red_confidence = 0.5, analysis_method = Some ''default'' \<rparr>"

definition impact_fallback :: "(string \<Rightarrow> exn + real) \<Rightarrow> red_event \<Rightarrow> red_result" where
  "impact_fallback chain event =
     (case red_transaction_hash event of
        Some tx_hash \<Rightarrow>
          if tx_hash \<noteq> [] \<and> \<not> starts_with tx_hash ''0xabc''
          then analyze_onchain_impact chain tx_hash
          else default_impact
      | None \<Rightarrow> default_impact)"

definition RiskEngine_analyze_financial_impact ::
  "(string \<Rightarrow> int option) \<Rightarrow> (string \<Rightarrow> exn + real) \<Rightarrow> red_event \<Rightarrow> red_result" where
  "RiskEngine_analyze_financial_impact py_int chain event =
     (if args event \<noteq> [] then
        (let value_str = (case map_of (args event) ''value'' of Some v \<Rightarrow> v | None \<Rightarrow> ''0'')
         in case py_int value_str of
              Some v \<Rightarrow> metadata_impact event v
            | None \<Rightarrow> impact_fallback chain event)
      else impact_fallback chain event)"

section \<open>Reading an assessment\<close>

text \<open>The \<open>risk_components\<close> entry of the details; the error assessment has none.\<close>

definition risk_components_of :: "RiskAssessment \<Rightarrow> components" where
  "risk_components_of a = (case details a of Details cs confs \<Rightarrow> cs | ErrorDetails m \<Rightarrow> [])"

section \<open>Example inputs\<close>

text \<open>A world in which no external service can be reached.\<close>

definition offline_world :: world where
  "offline_world =
     \<lparr> now = 1700000000,
       coingecko_ethereum = RequestRaises (RequestException ''connection refused''),
       coingecko_token = (\<lambda>a. RequestRaises (RequestException ''connection refused'')),
       etherscan_txlist = (\<lambda>a. RequestRaises (RequestException ''connection refused'')),
       goplus_address_security = (\<lambda>a. RequestRaises (RequestException ''connection refused'')) \<rparr>"

definition hashless_event :: ProcessedEvent where
  "hashless_event =
     \<lparr> transaction_hash = None, contract_address = ''0xdd'', event_type = TRANSFER,
       parsed_data = \<lparr> amount = Some 1, from_address = None, approval_amount = None \<rparr> \<rparr>"

definition max_approval_event :: ProcessedEvent where
  "max_approval_event =
     \<lparr> transaction_hash = Some ''0xabc'', contract_address = ''0xdef'', event_type = APPROVAL,
       parsed_data = \<lparr> amount = None, from_address = None,
                       approval_amount = Some (2 ^ 256 - 1) \<rparr> \<rparr>"

text \<open>
  An orchestrator whose event analyzer is healthy and whose risk assessor failed its
  health check, a request of one event, and the analyzer's successful answer to it.
\<close>

definition assessor_unhealthy :: agent_state_t where
  "assessor_unhealthy =
     \<lparr> events_processed = 0, high_risk_events = 0, critical_events = 0,
       sub_agents_event_analyzer = Some ''agent1qanalyzer'',
       sub_agents_risk_assessor = Some ''agent1qassessor'',
       delegation_stats_event_analyzer_calls = 0,
       delegation_stats_risk_assessor_calls = 0,
       delegation_stats_successful_delegations = 0,
       delegation_stats_failed_delegations = 0,
       agent_health_event_analyzer = ''healthy'',
       agent_health_risk_assessor = ''unhealthy'',
       communication_stats_requests_received = 0,
       communication_stats_responses_sent = 0,
       communication_stats_errors_handled = 0,
       communication_stats_timeouts = 0 \<rparr>"

definition small_transfer :: ProcessedEvent where
  "small_transfer =
     \<lparr> transaction_hash = Some ''0x01'', contract_address = ''0xdd'', event_type = TRANSFER,
       parsed_data = \<lparr> amount = Some 1, from_address = None, approval_amount = None \<rparr> \<rparr>"

definition one_event_request :: EventAnalysisRequest where
  "one_event_request =
     \<lparr> events = [CandidateEvent ''0x01'' ''17000000'' ''5'' ''0xdd''
                    ''Transfer(address,address,uint256)'' TRANSFER ''{}''],
       analysis_type = ''comprehensive'', priority = ''normal'' \<rparr>"

definition analysis_of_one :: EventAnalysisResult where
  "analysis_of_one =
     \<lparr> processed_events = [small_transfer], patterns_detected = [],
       analysis_request_id = ''req_20240101_120000_1'',
       processing_time = 0.01, analysis_confidence_score = 0.9 \<rparr>"

definition analyzer_success :: "EventAnalysisResult reply" where
  "analyzer_success = Reply (Some analysis_of_one) ''success''"

definition assessor_timeout :: "RiskAssessmentResult reply" where
  "assessor_timeout = Reply None ''timeout''"

section \<open>Properties of the recommendation and of the approval analyzer\<close>

text \<open>
  C3. With the default thresholds, the recommendation is MONITOR whenever the confidence
  is below 0.6, whatever the score; otherwise it is CRITICAL\_INVESTIGATION from a score
  of 0.9, IMMEDIATE\_INVESTIGATION from 0.7, INVESTIGATE from 0.5, and MONITOR below.
\<close>

theorem generate_recommendation_default:
  "generate_recommendation default_config s c =
     (if c < 0.6 then ''MONITOR''
      else if s \<ge> 0.9 then ''CRITICAL_INVESTIGATION''
      else if s \<ge> 0.7 then ''IMMEDIATE_INVESTIGATION''
      else if s \<ge> 0.5 then ''INVESTIGATE''
      else ''MONITOR'')"
  by (simp add: generate_recommendation_def default_config_def)

text \<open>
  C5. For an event that carries an approval amount \<open>a\<close>, the approval analyzer returns
  score 0.9 with the tag UNLIMITED\_APPROVAL when \<open>a\<close> is \<open>2^256 - 1\<close> or exceeds
  \<open>10^30\<close>, score 0.7 with LARGE\_APPROVAL when it exceeds \<open>10^24\<close>, and score 0.3 with
  NORMAL\_APPROVAL otherwise; the confidence is 0.8 in each case.
\<close>

theorem analyze_approval_risk_tiers:
  assumes "approval_amount (parsed_data event) = Some a"
  shows "analyze_approval_risk event =
     (if a = 2 ^ 256 - 1 \<or> a > 10 ^ 30
      then \<lparr> score = 0.9, confidence = 0.8, factors = [''UNLIMITED_APPROVAL''] \<rparr>
      else if a > 10 ^ 24
      then \<lparr> score = 0.7, confidence = 0.8, factors = [''LARGE_APPROVAL''] \<rparr>
      else \<lparr> score = 0.3, confidence = 0.8, factors = [''NORMAL_APPROVAL''] \<rparr>)"
  using assms
  by (simp add: analyze_approval_risk_def analyze_approval_risk_body_def catch_analysis_def
      is_unlimited_approval_def)

text \<open>The event of the specification's scenario: an approval of \<open>2^256 - 1\<close>.\<close>

theorem analyze_approval_risk_tiers_witness:
  "approval_amount (parsed_data max_approval_event) = Some (2 ^ 256 - 1) \<and>
   analyze_approval_risk max_approval_event =
     \<lparr> score = 0.9, confidence = 0.8, factors = [''UNLIMITED_APPROVAL''] \<rparr>"
  using analyze_approval_risk_tiers [of max_approval_event "2 ^ 256 - 1"]
  by (simp add: max_approval_event_def)

section \<open>The assessment returned when an exception leaves the analysis\<close>

text \<open>
  C10. If an exception leaves the body of \<open>assess_comprehensive_risk\<close>, the engine
  returns the fixed assessment with score 0.5, confidence 0.1, category
  FINANCIAL\_IMPACT and recommendation INVESTIGATE; with a minimum confidence above 0.1
  (the default is 0.6) the recommendation rule would have answered MONITOR for that score
  and confidence, so the low-confidence override is not applied on this path.
\<close>

theorem escaped_exception_assessment:
  assumes "fst (assess_comprehensive_risk_body cfg w st ev) = Inl e"
    and "0.1 < MIN_CONFIDENCE cfg"
  shows "overall_score (fst (assess_comprehensive_risk cfg w st ev)) = 0.5
       \<and> assessment_confidence (fst (assess_comprehensive_risk cfg w st ev)) = 0.1
       \<and> risk_category (fst (assess_comprehensive_risk cfg w st ev)) = FINANCIAL_IMPACT
       \<and> recommendation (fst (assess_comprehensive_risk cfg w st ev)) = ''INVESTIGATE''
       \<and> generate_recommendation cfg
            (overall_score (fst (assess_comprehensive_risk cfg w st ev)))
            (assessment_confidence (fst (assess_comprehensive_risk cfg w st ev))) = ''MONITOR''"
proof -
  obtain st' where b: "assess_comprehensive_risk_body cfg w st ev = (Inl e, st')"
    using assms(1) by (cases "assess_comprehensive_risk_body cfg w st ev") auto
  have a: "fst (assess_comprehensive_risk cfg w st ev) = assessment_error e"
    by (simp add: assess_comprehensive_risk_def b)
  show ?thesis
    using assms(2) by (simp add: a assessment_error_def generate_recommendation_def)
qed

text \<open>An event whose hash attribute is not a string makes the first statement raise.\<close>

theorem escaped_exception_assessment_witness:
  "fst (assess_comprehensive_risk_body default_config offline_world initial_state hashless_event)
     = Inl (TypeError (quoted ''NoneType'' @ '' object is not subscriptable''))
   \<and> (0.1::real) < MIN_CONFIDENCE default_config
   \<and> recommendation
        (fst (assess_comprehensive_risk default_config offline_world initial_state hashless_event))
      = ''INVESTIGATE''
   \<and> generate_recommendation default_config
        (overall_score
           (fst (assess_comprehensive_risk default_config offline_world initial_state
                   hashless_event)))
        (assessment_confidence
           (fst (assess_comprehensive_risk default_config offline_world initial_state
                   hashless_event))) = ''MONITOR''"
proof -
  have b: "fst (assess_comprehensive_risk_body default_config offline_world initial_state
                  hashless_event)
           = Inl (TypeError (quoted ''NoneType'' @ '' object is not subscriptable''))"
    by (simp add: assess_comprehensive_risk_body_def hashless_event_def)
  have c: "(0.1::real) < MIN_CONFIDENCE default_config"
    by (simp add: default_config_def)
  from escaped_exception_assessment [OF b c] b c show ?thesis
    by blast
qed

section \<open>The orchestrator when the risk-assessment stage gives no result\<close>

lemma request_id_of_one_event:
  "request_id_of ''20240101_120000'' one_event_request = ''req_20240101_120000_1''"
  by code_simp

lemma delegate_to_risk_assessor_None:
  "fst (delegate_to_risk_assessor st ear rid answer) = None"
  by (simp add: delegate_to_risk_assessor_def RiskAssessmentRequest_lookup_def)

text \<open>
  C2, as the specification states it, asks for a local assessment of every processed
  event when the risk assessor is unhealthy. The endpoint answers with the error
  response instead: status \<open>error\<close>, no event received, and a summary that holds the
  message only.
\<close>

theorem unhealthy_assessor_error_response:
  "fst (analyze_events_endpoint assessor_unhealthy one_event_request ''20240101_120000''
          analyzer_success assessor_timeout)
   = Inr \<lparr> response_status = ''error'',
           acknowledgment =
             \<lparr> ack_request_id = ''req_20240101_120000_1'', events_received = 0,
               ack_status = ''error'', message = ''Risk assessment failed'',
               processing_started = False \<rparr>,
           summary = [(''error'', ''Risk assessment failed'')] \<rparr>"
  by (simp add: analyze_events_endpoint_def delegate_to_event_analyzer_def
      delegate_to_risk_assessor_def assessor_unhealthy_def
      analyzer_success_def count_request_def request_id_of_one_event truthy_def
      create_error_response_def)

text \<open>
  C2, amended. Whenever the event analysis has succeeded and the delegation of the
  risk-assessment stage ends unhealthy, in an error or in a timeout,
  \<open>delegate_to_risk_assessor\<close> returns \<open>None\<close> and the endpoint returns the error response
  with the message "Risk assessment failed"; no assessment is computed locally.
\<close>

theorem failed_risk_delegation_error_response:
  assumes "delegate_to_event_analyzer (count_request st) request
             (request_id_of stamp request) analyzer_answer = (Some ear, st1)"
    and "risk_delegation_fails st1 assessor_answer"
  shows "fst (delegate_to_risk_assessor st1 ear (request_id_of stamp request) assessor_answer)
           = None
       \<and> fst (analyze_events_endpoint st request stamp analyzer_answer assessor_answer)
           = Inr (create_error_response (request_id_of stamp request)
                    ''Risk assessment failed'')"
proof -
  obtain st2 where d:
    "delegate_to_risk_assessor st1 ear (request_id_of stamp request) assessor_answer
       = (None, st2)"
    using delegate_to_risk_assessor_None
    by (metis fst_conv surj_pair)
  show ?thesis
    by (simp add: analyze_events_endpoint_def assms(1) d)
qed

theorem failed_risk_delegation_error_response_witness:
  "fst (delegate_to_event_analyzer (count_request assessor_unhealthy) one_event_request
          (request_id_of ''20240101_120000'' one_event_request) analyzer_success)
     = Some analysis_of_one
   \<and> risk_delegation_fails
        (snd (delegate_to_event_analyzer (count_request assessor_unhealthy) one_event_request
                (request_id_of ''20240101_120000'' one_event_request) analyzer_success))
        assessor_timeout
   \<and> fst (analyze_events_endpoint assessor_unhealthy one_event_request ''20240101_120000''
            analyzer_success assessor_timeout)
       = Inr (create_error_response (request_id_of ''20240101_120000'' one_event_request)
                ''Risk assessment failed'')"
proof -
  let ?d = "delegate_to_event_analyzer (count_request assessor_unhealthy) one_event_request
              (request_id_of ''20240101_120000'' one_event_request) analyzer_success"
  have f: "fst ?d = Some analysis_of_one"
    by (simp add: delegate_to_event_analyzer_def count_request_def assessor_unhealthy_def
        analyzer_success_def truthy_def)
  have h1: "?d = (Some analysis_of_one, snd ?d)"
    using f by (metis prod.collapse)
  have h2: "risk_delegation_fails (snd ?d) assessor_timeout"
    by (simp add: risk_delegation_fails_def assessor_timeout_def)
  from failed_risk_delegation_error_response [OF h1 h2] f h2 show ?thesis
    by blast
qed

end
